theory Spec2Isabelle
  imports Complex_Main
begin

section \<open>A model of bazelisk.py\<close>

text \<open>
  The launcher is a sequence of reads and writes on its host: the process environment,
  the file system, the clock, the platform strings and the network. The host is a record
  that every function of the program takes and, where it changes it, returns. An
  exception of the Python program is the left summand of the result.

  Python strings are character lists, time stamps (Python floats) are real numbers, and
  the integer read from the Content-Length header is an unbounded \<open>int\<close>.
\<close>

subsection \<open>Exceptions\<close>

datatype error =
    FileNotFoundError
  | PermissionError
  | IsADirectoryError
  | FileExistsError
  | NotADirectoryError
  | RecursionError
  | URLError
  | TypeError
  | ValueError
  | ZeroDivisionError
  | Exception string

subsection \<open>String functions of the Python library\<close>

text \<open>
  \<open>str.strip()\<close> removes leading and trailing white space; among the code points below
  256 these are 9 to 13, 28 to 32, 133 and 160.
\<close>

definition isspace :: "char \<Rightarrow> bool" where
  "isspace c =
     (let n = (of_char c :: nat) in
      (9 \<le> n \<and> n \<le> 13) \<or> (28 \<le> n \<and> n \<le> 32) \<or> n = 133 \<or> n = 160)"

definition strip :: "string \<Rightarrow> string" where
  "strip s = rev (dropWhile isspace (rev (dropWhile isspace s)))"

text \<open>\<open>str.lower()\<close> on the letters A to Z.\<close>

definition lower_char :: "char \<Rightarrow> char" where
  "lower_char c =
     (let n = (of_char c :: nat) in if 65 \<le> n \<and> n \<le> 90 then char_of (n + 32) else c)"

definition lower :: "string \<Rightarrow> string" where
  "lower s = map lower_char s"

text \<open>\<open>s.split('/')[-1]\<close>: what follows the last slash, or all of \<open>s\<close> without one.\<close>

definition last_segment :: "string \<Rightarrow> string" where
  "last_segment s = rev (takeWhile (\<lambda>c. c \<noteq> CHR ''/'') (rev s))"

text \<open>
  \<open>os.path.join(a, b)\<close> and \<open>os.path.dirname(p)\<close> as posixpath defines them.
  \<open>dirname\<close> cuts \<open>p\<close> after its last slash and then removes the trailing slashes of
  that head, unless the head consists of slashes only.
\<close>

definition join :: "string \<Rightarrow> string \<Rightarrow> string" where
  "join a b =
     (if b \<noteq> [] \<and> hd b = CHR ''/'' then b
      else if a = [] \<or> last a = CHR ''/'' then a @ b
      else a @ ''/'' @ b)"

definition dirname :: "string \<Rightarrow> string" where
  "dirname p =
     (let h = dropWhile (\<lambda>c. c \<noteq> CHR ''/'') (rev p) in
      if h \<noteq> [] \<and> \<not> list_all (\<lambda>c. c = CHR ''/'') h
      then rev (dropWhile (\<lambda>c. c = CHR ''/'') h)
      else rev h)"

subsection \<open>The file system\<close>

text \<open>
  A path names at most one node: a directory or a regular file with its contents, each
  with a modification time and permission bits. The process is taken to own the nodes
  it touches, so the owner bits decide: \<open>0o400\<close> to read, \<open>0o200\<close> to write.
  A new file gets the mode \<open>0o644\<close>, a new directory \<open>0o755\<close>.
\<close>

datatype content = Directory | Regular string

record node =
  content :: content
  mtime :: real
  mode :: nat

type_synonym filesystem = "string \<rightharpoonup> node"

definition readable :: "node \<Rightarrow> bool" where
  "readable n = ((mode n div 256) mod 2 = 1)"

definition writable :: "node \<Rightarrow> bool" where
  "writable n = ((mode n div 128) mod 2 = 1)"

definition path_exists :: "filesystem \<Rightarrow> string \<Rightarrow> bool" where
  "path_exists fs p = (fs p \<noteq> None)"

text \<open>\<open>open(p, 'r').read()\<close>\<close>

definition open_read :: "filesystem \<Rightarrow> string \<Rightarrow> error + string" where
  "open_read fs p =
     (case fs p of
        None \<Rightarrow> Inl FileNotFoundError
      | Some n \<Rightarrow>
          if \<not> readable n then Inl PermissionError
          else (case content n of
                  Directory \<Rightarrow> Inl IsADirectoryError
                | Regular s \<Rightarrow> Inr s))"

text \<open>
  The directory that holds \<open>p\<close>: a name without a directory part lies in the working
  directory.
\<close>

definition parent_directory :: "string \<Rightarrow> string \<Rightarrow> string" where
  "parent_directory working p = (if dirname p = [] then working else dirname p)"

text \<open>
  \<open>open(p, 'w').write(data)\<close> at the time \<open>t\<close>. An existing file is overwritten when it
  is writable. A new file needs its parent directory: \<open>FileNotFoundError\<close> when that is
  absent, \<open>NotADirectoryError\<close> when it is a regular file, \<open>PermissionError\<close> when it
  is not writable.
\<close>

definition write_file ::
  "filesystem \<Rightarrow> string \<Rightarrow> real \<Rightarrow> string \<Rightarrow> string \<Rightarrow> error + filesystem" where
  "write_file fs working t p data =
     (case fs p of
        None \<Rightarrow>
          (case fs (parent_directory working p) of
             None \<Rightarrow> Inl FileNotFoundError
           | Some d \<Rightarrow>
               (case content d of
                  Regular _ \<Rightarrow> Inl NotADirectoryError
                | Directory \<Rightarrow>
                    if \<not> writable d then Inl PermissionError
                    else Inr (fs(p \<mapsto> \<lparr>content = Regular data, mtime = t, mode = 420\<rparr>))))
      | Some n \<Rightarrow>
          (case content n of
             Directory \<Rightarrow> Inl IsADirectoryError
           | Regular _ \<Rightarrow>
               if \<not> writable n then Inl PermissionError
               else Inr (fs(p \<mapsto> n\<lparr>content := Regular data, mtime := t\<rparr>))))"

text \<open>\<open>os.path.getmtime(p)\<close>\<close>

definition getmtime :: "filesystem \<Rightarrow> string \<Rightarrow> error + real" where
  "getmtime fs p = (case fs p of None \<Rightarrow> Inl FileNotFoundError | Some n \<Rightarrow> Inr (mtime n))"

text \<open>\<open>os.chmod(p, m)\<close>\<close>

definition chmod :: "filesystem \<Rightarrow> string \<Rightarrow> nat \<Rightarrow> error + filesystem" where
  "chmod fs p m =
     (case fs p of None \<Rightarrow> Inl FileNotFoundError | Some n \<Rightarrow> Inr (fs(p \<mapsto> n\<lparr>mode := m\<rparr>)))"

text \<open>
  \<open>os.makedirs(p, exist_ok=True)\<close> at the time \<open>t\<close>: nothing to do for a directory, an
  error for a regular file, and otherwise the directory is made at \<open>p\<close>. The launcher
  calls it on the home directory's \<open>.bazelisk\<close> and then on \<open>bin\<close> inside it, so the
  parent is taken to exist.
\<close>

definition makedirs :: "filesystem \<Rightarrow> real \<Rightarrow> string \<Rightarrow> error + filesystem" where
  "makedirs fs t p =
     (case fs p of
        None \<Rightarrow> Inr (fs(p \<mapsto> \<lparr>content = Directory, mtime = t, mode = 493\<rparr>))
      | Some n \<Rightarrow>
          (case content n of
             Directory \<Rightarrow> Inr fs
           | Regular _ \<Rightarrow> Inl FileExistsError))"

subsection \<open>The host and the network\<close>

text \<open>
  A download answers with the integer of its Content-Length header and a body that is
  read block by block. \<open>content_length\<close> is the outcome of
  \<open>int(meta.get("Content-Length"))\<close>: \<open>TypeError\<close> without the header, \<open>ValueError\<close>
  when it is no integer. Each \<open>u.read(1024)\<close> takes the next chunk of \<open>body\<close>: a block
  of bytes or a failure of the connection; past the end of the list it returns the empty
  block.
\<close>

datatype chunk = Data string | Err error

record response =
  content_length :: "error + int"
  body :: "chunk list"

text \<open>
  \<open>latest_redirect\<close> is what the HEAD request for the latest release ends in: an error,
  or the URL after the redirects. \<open>serve\<close> answers a GET request. \<open>net_log\<close> lists the
  URLs requested so far, oldest first. \<open>spawn\<close> runs a binary with arguments and waits
  for its exit code. \<open>recursion_room\<close> is the number of nested calls of
  \<open>find_workspace_root\<close> that the interpreter's recursion limit (1000 frames unless it is
  changed) leaves room for when the selector calls it.
\<close>

record world =
  environ :: "string \<rightharpoonup> string"
  cwd :: string
  home :: string
  machine :: string
  system :: string
  now :: real
  fs :: filesystem
  latest_redirect :: "error + string"
  serve :: "string \<Rightarrow> error + response"
  net_log :: "string list"
  spawn :: "string \<Rightarrow> string list \<Rightarrow> error + int"
  recursion_room :: nat

definition ONE_HOUR :: real where
  "ONE_HOUR = 1 * 60 * 60"

subsection \<open>The version selector\<close>

text \<open>
  \<open>find_workspace_root\<close> climbs from its argument \<open>root\<close> (here \<open>rootdir\<close>) to the
  first directory that holds a \<open>WORKSPACE\<close> entry and gives up where \<open>dirname\<close> no
  longer changes the path. It calls itself for every step, so each directory visited takes a
  frame of the interpreter: \<open>room\<close> counts the calls that may still be nested, and a call
  with none left raises \<open>RecursionError\<close>. The result \<open>None\<close> is Python's \<open>None\<close>.
  Its caller passes the working directory.
\<close>

fun find_workspace_root :: "nat \<Rightarrow> filesystem \<Rightarrow> string \<Rightarrow> error + string option" where
  "find_workspace_root room files rootdir =
     (if room = 0 then Inl RecursionError
      else if path_exists files (join rootdir ''WORKSPACE'') then Inr (Some rootdir)
      else if dirname rootdir \<noteq> rootdir then find_workspace_root (room - 1) files (dirname rootdir)
      else Inr None)"

text \<open>
  \<open>decide_which_bazel_version_to_use\<close>: the variable \<open>USE_BAZEL_VERSION\<close> first, then
  the file \<open>.bazelversion\<close> of the workspace root, then \<open>latest\<close>. The
  \<open>try\<close> block holds the walk and the read and catches \<open>FileNotFoundError\<close> and nothing
  else; an empty root string is false in the test \<open>if workspace_root\<close>.
\<close>

definition decide_which_bazel_version_to_use :: "world \<Rightarrow> error + string" where
  "decide_which_bazel_version_to_use w =
     (case environ w ''USE_BAZEL_VERSION'' of
        Some v \<Rightarrow> Inr v
      | None \<Rightarrow>
          (case find_workspace_root (recursion_room w) (fs w) (cwd w) of
             Inl e \<Rightarrow> if e = FileNotFoundError then Inr ''latest'' else Inl e
           | Inr None \<Rightarrow> Inr ''latest''
           | Inr (Some workspace_root) \<Rightarrow>
               if workspace_root = [] then Inr ''latest''
               else (case open_read (fs w) (join workspace_root ''.bazelversion'') of
                       Inr s \<Rightarrow> Inr (strip s)
                     | Inl e \<Rightarrow> if e = FileNotFoundError then Inr ''latest'' else Inl e)))"

subsection \<open>Resolving \<open>latest\<close>\<close>

definition resolve_latest_version :: "world \<Rightarrow> (error + string) \<times> world" where
  "resolve_latest_version w =
     (let w' = w\<lparr>net_log := net_log w @ [''https://github.com/bazelbuild/bazel/releases/latest'']\<rparr> in
      case latest_redirect w of
        Inl e \<Rightarrow> (Inl e, w')
      | Inr url \<Rightarrow> (Inr (last_segment url), w'))"

text \<open>
  The \<open>try\<close> block of \<open>resolve_version_label_to_number\<close>: \<open>Inr (Some v)\<close> when it
  returns \<open>v\<close>, \<open>Inr None\<close> when control leaves it (the cache is too old, or a
  \<open>FileNotFoundError\<close> was caught), \<open>Inl e\<close> for any other exception.
\<close>

definition read_latest_cache :: "world \<Rightarrow> string \<Rightarrow> error + string option" where
  "read_latest_cache w latest_cache =
     (case getmtime (fs w) latest_cache of
        Inl e \<Rightarrow> if e = FileNotFoundError then Inr None else Inl e
      | Inr m \<Rightarrow>
          if \<bar>now w - m\<bar> < ONE_HOUR
          then (case open_read (fs w) latest_cache of
                  Inr s \<Rightarrow> Inr (Some (strip s))
                | Inl e \<Rightarrow> if e = FileNotFoundError then Inr None else Inl e)
          else Inr None)"

definition resolve_version_label_to_number ::
  "world \<Rightarrow> string \<Rightarrow> string \<Rightarrow> (error + string) \<times> world" where
  "resolve_version_label_to_number w bazelisk_directory version =
     (if version = ''latest'' then
        (let latest_cache = join bazelisk_directory ''latest_bazel'' in
         case read_latest_cache w latest_cache of
           Inl e \<Rightarrow> (Inl e, w)
         | Inr (Some v) \<Rightarrow> (Inr v, w)
         | Inr None \<Rightarrow>
             (case resolve_latest_version w of
                (Inl e, w1) \<Rightarrow> (Inl e, w1)
              | (Inr latest_version, w1) \<Rightarrow>
                  (case write_file (fs w1) (cwd w1) (now w1) latest_cache latest_version of
                     Inl e \<Rightarrow> (Inl e, w1)
                   | Inr fs' \<Rightarrow> (Inr latest_version, w1\<lparr>fs := fs'\<rparr>))))
      else (Inr version, w))"

subsection \<open>Naming and downloading the binary\<close>

definition determine_bazel_filename :: "world \<Rightarrow> string \<Rightarrow> error + string" where
  "determine_bazel_filename w version =
     (if machine w \<noteq> ''x86_64'' then
        Inl (Exception (''Unsupported machine architecture '' @ [CHR 0x27] @ machine w @ [CHR 0x27]
               @ ''. Bazel currently only supports x86_64.''))
      else
        (let operating_system = lower (system w) in
         if operating_system \<notin> {''linux'', ''darwin'', ''windows''} then
           Inl (Exception (''Unsupported operating system '' @ [CHR 0x27] @ operating_system
                  @ [CHR 0x27] @ ''. Bazel currently only supports Linux, macOS and Windows.''))
         else Inr (''bazel-'' @ version @ ''-'' @ operating_system @ ''-'' @ machine w)))"

text \<open>
  The \<open>while True\<close> loop of the download: each round reads a block, appends it, adds
  its length to \<open>total\<close> (here \<open>total_read\<close>) and divides by \<open>fileTotalbytes\<close> for the progress bar, which
  raises \<open>ZeroDivisionError\<close> for the length 0; the empty block ends the loop. What
  it prints is left out.
\<close>

fun read_blocks :: "int \<Rightarrow> chunk list \<Rightarrow> string list \<Rightarrow> int \<Rightarrow> error + string list" where
  "read_blocks fileTotalbytes [] data_blocks total_read =
     (if fileTotalbytes = 0 then Inl ZeroDivisionError else Inr (data_blocks @ [[]]))"
| "read_blocks fileTotalbytes (Err e # rest) data_blocks total_read = Inl e"
| "read_blocks fileTotalbytes (Data block # rest) data_blocks total_read =
     (if fileTotalbytes = 0 then Inl ZeroDivisionError
      else if block = [] then Inr (data_blocks @ [block])
      else read_blocks fileTotalbytes rest (data_blocks @ [block]) (total_read + int (length block)))"

text \<open>
  The body of \<open>if not os.path.exists(destination_path)\<close>: request the URL, read the
  length, read the blocks, and only then open the destination and write all of them.
\<close>

definition fetch_to :: "world \<Rightarrow> string \<Rightarrow> string \<Rightarrow> (error + unit) \<times> world" where
  "fetch_to w url destination_path =
     (let w1 = w\<lparr>net_log := net_log w @ [url]\<rparr> in
      case serve w url of
        Inl e \<Rightarrow> (Inl e, w1)
      | Inr u \<Rightarrow>
          (case content_length u of
             Inl e \<Rightarrow> (Inl e, w1)
           | Inr fileTotalbytes \<Rightarrow>
               (case read_blocks fileTotalbytes (body u) [] 0 of
                  Inl e \<Rightarrow> (Inl e, w1)
                | Inr data_blocks \<Rightarrow>
                    (case write_file (fs w1) (cwd w1) (now w1) destination_path
                             (concat data_blocks) of
                       Inl e \<Rightarrow> (Inl e, w1)
                     | Inr fs' \<Rightarrow> (Inr (), w1\<lparr>fs := fs'\<rparr>)))))"

definition download_bazel_into_directory ::
  "world \<Rightarrow> string \<Rightarrow> string \<Rightarrow> (error + string) \<times> world" where
  "download_bazel_into_directory w version directory =
     (case determine_bazel_filename w version of
        Inl e \<Rightarrow> (Inl e, w)
      | Inr bazel_filename \<Rightarrow>
          (let url = ''https://releases.bazel.build/'' @ version @ ''/release/'' @ bazel_filename;
               destination_path = join directory bazel_filename in
           case (if \<not> path_exists (fs w) destination_path
                 then fetch_to w url destination_path else (Inr (), w)) of
             (Inl e, w1) \<Rightarrow> (Inl e, w1)
           | (Inr _, w1) \<Rightarrow>
               (case chmod (fs w1) destination_path 493 of
                  Inl e \<Rightarrow> (Inl e, w1)
                | Inr fs' \<Rightarrow> (Inr destination_path, w1\<lparr>fs := fs'\<rparr>))))"

subsection \<open>The launcher\<close>

definition main :: "world \<Rightarrow> string list \<Rightarrow> (error + int) \<times> world" where
  "main w argv =
     (let bazelisk_directory = join (home w) ''.bazelisk'' in
      case makedirs (fs w) (now w) bazelisk_directory of
        Inl e \<Rightarrow> (Inl e, w)
      | Inr fs1 \<Rightarrow>
          (let w1 = w\<lparr>fs := fs1\<rparr> in
           case decide_which_bazel_version_to_use w1 of
             Inl e \<Rightarrow> (Inl e, w1)
           | Inr label \<Rightarrow>
               (case resolve_version_label_to_number w1 bazelisk_directory label of
                  (Inl e, w2) \<Rightarrow> (Inl e, w2)
                | (Inr bazel_version, w2) \<Rightarrow>
                    (let bazel_directory = join bazelisk_directory ''bin'' in
                     case makedirs (fs w2) (now w2) bazel_directory of
                       Inl e \<Rightarrow> (Inl e, w2)
                     | Inr fs3 \<Rightarrow>
                         (case download_bazel_into_directory (w2\<lparr>fs := fs3\<rparr>) bazel_version
                                 bazel_directory of
                            (Inl e, w4) \<Rightarrow> (Inl e, w4)
                          | (Inr bazel_path, w4) \<Rightarrow> (spawn w4 bazel_path (drop 1 argv), w4))))))"


section \<open>Notions used in the statements\<close>

lemma dropWhile_same_length:
  "length (dropWhile P xs) = length xs \<Longrightarrow> dropWhile P xs = xs"
proof (cases xs)
  case Nil
  then show ?thesis by simp
next
  case (Cons x ys)
  assume len: "length (dropWhile P xs) = length xs"
  have "length (dropWhile P ys) \<le> length ys"
    by (rule length_dropWhile_le)
  with len Cons show ?thesis
    by (cases "P x") auto
qed

lemma dirname_length: "length (dirname p) \<le> length p"
proof -
  let ?h = "dropWhile (\<lambda>c. c \<noteq> CHR ''/'') (rev p)"
  have h: "length ?h \<le> length p"
    using length_dropWhile_le [of "\<lambda>c. c \<noteq> CHR ''/''" "rev p"] by simp
  have "length (dropWhile (\<lambda>c. c = CHR ''/'') ?h) \<le> length ?h"
    by (rule length_dropWhile_le)
  with h show ?thesis
    by (simp add: dirname_def Let_def)
qed

lemma dirname_fixed: "length (dirname p) = length p \<Longrightarrow> dirname p = p"
proof -
  let ?h = "dropWhile (\<lambda>c. c \<noteq> CHR ''/'') (rev p)"
  let ?k = "dropWhile (\<lambda>c. c = CHR ''/'') ?h"
  assume len: "length (dirname p) = length p"
  have h: "length ?h \<le> length (rev p)"
    by (rule length_dropWhile_le)
  have k: "length ?k \<le> length ?h"
    by (rule length_dropWhile_le)
  show ?thesis
  proof (cases "?h \<noteq> [] \<and> \<not> list_all (\<lambda>c. c = CHR ''/'') ?h")
    case True
    then have d: "dirname p = rev ?k"
      by (simp add: dirname_def Let_def)
    with len h k have "length ?k = length ?h" and "length ?h = length (rev p)"
      by simp_all
    then have "?k = ?h" and "?h = rev p"
      by (simp_all only: dropWhile_same_length)
    with d show ?thesis by simp
  next
    case False
    then have d: "dirname p = rev ?h"
      by (auto simp add: dirname_def Let_def)
    with len have "length ?h = length (rev p)"
      by simp
    then have "?h = rev p"
      by (rule dropWhile_same_length)
    with d show ?thesis by simp
  qed
qed

lemma dirname_shorter: "dirname p \<noteq> p \<Longrightarrow> length (dirname p) < length p"
  using dirname_length [of p] dirname_fixed [of p] by linarith

text \<open>
  The directories the walk of \<open>find_workspace_root\<close> visits, in order: the start, its
  parent, and so on up to the path that \<open>dirname\<close> leaves unchanged.
\<close>

function ancestors :: "string \<Rightarrow> string list" where
  "ancestors p = p # (if dirname p \<noteq> p then ancestors (dirname p) else [])"
  by pat_completeness auto
termination
  by (relation "measure length") (auto simp add: dirname_shorter)

declare find_workspace_root.simps [simp del] ancestors.simps [simp del]

text \<open>
  An absolute path, as \<open>os.getcwd()\<close> returns it.
\<close>

definition absolute :: "string \<Rightarrow> bool" where
  "absolute p = (p \<noteq> [] \<and> hd p = CHR ''/'')"

text \<open>
  The URL of the request for the latest release.
\<close>

abbreviation latest_url :: string where
  "latest_url \<equiv> ''https://github.com/bazelbuild/bazel/releases/latest''"

text \<open>
  What the specification says of the binary: its name, the URL it is fetched from, and the
  platforms that have one.
\<close>

definition artifact_filename :: "string \<Rightarrow> string \<Rightarrow> string \<Rightarrow> string" where
  "artifact_filename version os arch = ''bazel-'' @ version @ ''-'' @ os @ ''-'' @ arch"

definition release_url :: "string \<Rightarrow> string \<Rightarrow> string" where
  "release_url version filename = ''https://releases.bazel.build/'' @ version @ ''/release/'' @ filename"

definition supported :: "world \<Rightarrow> bool" where
  "supported w =
     (machine w = ''x86_64'' \<and> lower (system w) \<in> {''linux'', ''darwin'', ''windows''})"



text \<open>
  A directory in which the process may create files.
\<close>

definition writable_directory :: "filesystem \<Rightarrow> string \<Rightarrow> bool" where
  "writable_directory files p =
     (case files p of None \<Rightarrow> False | Some d \<Rightarrow> content d = Directory \<and> writable d)"

text \<open>
  The directory the launcher of the example hosts downloads into.
\<close>

abbreviation bin_dir :: string where
  "bin_dir \<equiv> ''/home/user/.bazelisk/bin''"

text \<open>
  The message of the exception for the architecture \<open>arm64\<close>.
\<close>

abbreviation arm64_message :: string where
  "arm64_message \<equiv> ''Unsupported machine architecture '' @ [CHR 0x27] @ ''arm64'' @ [CHR 0x27]
     @ ''. Bazel currently only supports x86_64.''"

section \<open>Example hosts\<close>

text \<open>
  A Linux host on x86_64 with an empty file system, no override in the environment and a
  network that redirects the latest release to 9.1.0 and serves ten bytes for any binary.
  The other hosts differ from it in the fields named; \<open>ready_host\<close> has the two cache
  directories. \<open>deep n\<close> is the path of \<open>n\<close> nested directories named \<open>a\<close>.
\<close>

definition file_node :: "string \<Rightarrow> real \<Rightarrow> nat \<Rightarrow> node" where
  "file_node s t m = \<lparr>content = Regular s, mtime = t, mode = m\<rparr>"

definition dir_node :: "real \<Rightarrow> nat \<Rightarrow> node" where
  "dir_node t m = \<lparr>content = Directory, mtime = t, mode = m\<rparr>"

definition example_host :: world where
  "example_host =
     \<lparr>environ = Map.empty, cwd = ''/home/user/proj/src'', home = ''/home/user'',
      machine = ''x86_64'', system = ''Linux'', now = 5000, fs = Map.empty,
      latest_redirect = Inr ''https://github.com/bazelbuild/bazel/releases/tag/9.1.0'',
      serve = (\<lambda>url. Inr \<lparr>content_length = Inr 10, body = [Data ''0123456789'']\<rparr>),
      net_log = [], spawn = (\<lambda>p args. Inr 0), recursion_room = 990\<rparr>"

definition cache_dirs :: filesystem where
  "cache_dirs =
     [''/home/user/.bazelisk'' \<mapsto> dir_node 100 493,
      ''/home/user/.bazelisk/bin'' \<mapsto> dir_node 100 493]"

definition ready_host :: world where
  "ready_host = example_host\<lparr>fs := cache_dirs\<rparr>"

definition pinned_fs :: "node \<Rightarrow> filesystem" where
  "pinned_fs pin =
     [''/home/user/proj/WORKSPACE'' \<mapsto> file_node [] 100 420,
      ''/home/user/proj/.bazelversion'' \<mapsto> pin]"



definition dir_pin_host :: world where
  "dir_pin_host = example_host\<lparr>fs := pinned_fs (dir_node 100 493)\<rparr>"

definition locked_pin_host :: world where
  "locked_pin_host = example_host\<lparr>fs := pinned_fs (file_node ''7.0.0'' 100 0)\<rparr>"

definition no_pin_host :: world where
  "no_pin_host = example_host\<lparr>fs := [''/home/user/proj/WORKSPACE'' \<mapsto> file_node [] 100 420]\<rparr>"

definition cache_host :: "real \<Rightarrow> world" where
  "cache_host t =
     example_host\<lparr>now := t,
       fs := cache_dirs(''/home/user/.bazelisk/latest_bazel'' \<mapsto> file_node ''8.0.0'' 1000 420)\<rparr>"

definition unreadable_cache_host :: world where
  "unreadable_cache_host =
     example_host\<lparr>fs :=
       cache_dirs(''/home/user/.bazelisk/latest_bazel'' \<mapsto> file_node ''8.0.0'' 4000 0)\<rparr>"

definition empty_override_host :: world where
  "empty_override_host = example_host\<lparr>environ := [''USE_BAZEL_VERSION'' \<mapsto> []]\<rparr>"

definition slash_override_host :: world where
  "slash_override_host = example_host\<lparr>environ := [''USE_BAZEL_VERSION'' \<mapsto> ''../7.0.0'']\<rparr>"

definition cached_binary_host :: world where
  "cached_binary_host =
     example_host\<lparr>fs := cache_dirs(''/home/user/.bazelisk/bin/bazel-7.0.0-linux-x86_64''
                            \<mapsto> file_node ''old'' 100 420)\<rparr>"

definition mac_host :: world where
  "mac_host = ready_host\<lparr>system := ''Darwin''\<rparr>"

definition broken_host :: world where
  "broken_host =
     ready_host\<lparr>serve := (\<lambda>url. Inr \<lparr>content_length = Inr 10,
                                        body = [Data ''01234'', Err URLError]\<rparr>)\<rparr>"


definition arm_host :: world where
  "arm_host = example_host\<lparr>machine := ''arm64''\<rparr>"

primrec deep :: "nat \<Rightarrow> string" where
  "deep 0 = []"
| "deep (Suc n) = deep n @ ''/a''"

definition deep_host :: world where
  "deep_host = example_host\<lparr>cwd := deep 1100, recursion_room := 1000\<rparr>"

section \<open>Properties of the walk\<close>

lemmas host_defs = example_host_def ready_host_def cache_dirs_def dir_node_def file_node_def

lemma dropWhile_last:
  "dropWhile P xs \<noteq> [] \<Longrightarrow> last (dropWhile P xs) = last xs"
proof -
  assume ne: "dropWhile P xs \<noteq> []"
  have "xs = takeWhile P xs @ dropWhile P xs" by simp
  then have "last xs = last (takeWhile P xs @ dropWhile P xs)" by simp
  also have "\<dots> = last (dropWhile P xs)" using ne by (rule last_appendR)
  finally show ?thesis by simp
qed

lemma dirname_absolute: "absolute p \<Longrightarrow> absolute (dirname p)"
proof -
  assume a: "absolute p"
  let ?h = "dropWhile (\<lambda>c. c \<noteq> CHR ''/'') (rev p)"
  let ?k = "dropWhile (\<lambda>c. c = CHR ''/'') ?h"
  from a have lp: "rev p \<noteq> []" "last (rev p) = CHR ''/''"
    by (simp_all add: absolute_def last_rev)
  then have "CHR ''/'' \<in> set (rev p)"
    using last_in_set by metis
  then have hne: "?h \<noteq> []"
    by (simp add: dropWhile_eq_Nil_conv) 
  then have lh: "last ?h = CHR ''/''"
    using lp dropWhile_last [of "\<lambda>c. c \<noteq> CHR ''/''" "rev p"] by simp
  show ?thesis
  proof (cases "list_all (\<lambda>c. c = CHR ''/'') ?h")
    case True
    then have "dirname p = rev ?h"
      by (simp add: dirname_def Let_def)
    with hne lh show ?thesis
      by (simp add: absolute_def hd_rev)
  next
    case False
    then have kne: "?k \<noteq> []"
      by (simp add: dropWhile_eq_Nil_conv list_all_iff)
    then have "last ?k = CHR ''/''"
      using lh dropWhile_last [of "\<lambda>c. c = CHR ''/''" ?h] by simp
    moreover from False hne have "dirname p = rev ?k"
      by (simp add: dirname_def Let_def)
    ultimately show ?thesis
      using kne by (simp add: absolute_def hd_rev)
  qed
qed

lemma ancestors_nonempty: "ancestors r \<noteq> []"
  by (subst ancestors.simps) simp

lemma find_workspace_root_find:
  "find_workspace_root k files r =
     (case List.find (\<lambda>p. path_exists files (join p ''WORKSPACE'')) (take k (ancestors r)) of
        Some p \<Rightarrow> Inr (Some p)
      | None \<Rightarrow> if k < length (ancestors r) then Inl RecursionError else Inr None)"
proof (induction k files r rule: find_workspace_root.induct)
  case (1 room files rootdir)
  show ?case
  proof (cases "room = 0")
    case True
    then show ?thesis
      using ancestors_nonempty [of rootdir]
      by (subst find_workspace_root.simps) simp
  next
    case nz: False
    then obtain j where j: "room = Suc j"
      by (cases room) auto
    show ?thesis
    proof (cases "path_exists files (join rootdir ''WORKSPACE'')")
      case True
      have "ancestors rootdir
          = rootdir # (if dirname rootdir \<noteq> rootdir then ancestors (dirname rootdir) else [])"
        by (rule ancestors.simps)
      with j True show ?thesis
        by (subst find_workspace_root.simps) simp
    next
      case no: False
      show ?thesis
      proof (cases "dirname rootdir = rootdir")
        case True
        then have "ancestors rootdir = [rootdir]"
          by (subst ancestors.simps) simp
        with j no True show ?thesis
          by (subst find_workspace_root.simps) simp
      next
        case False
        then have anc: "ancestors rootdir = rootdir # ancestors (dirname rootdir)"
          by (subst ancestors.simps) simp
        from 1 [OF nz no False]
        have "find_workspace_root j files (dirname rootdir) =
          (case List.find (\<lambda>p. path_exists files (join p ''WORKSPACE''))
                  (take j (ancestors (dirname rootdir))) of
             Some p \<Rightarrow> Inr (Some p)
           | None \<Rightarrow> if j < length (ancestors (dirname rootdir))
                     then Inl RecursionError else Inr None)"
          unfolding j diff_Suc_1 .
        with j no False anc show ?thesis
          by (subst find_workspace_root.simps) simp
      qed
    qed
  qed
qed

lemma ancestors_absolute: "absolute r \<Longrightarrow> p \<in> set (ancestors r) \<Longrightarrow> absolute p"
proof (induction r rule: ancestors.induct)
  case (1 q)
  from "1.prems"(2) have "p = q \<or> (dirname q \<noteq> q \<and> p \<in> set (ancestors (dirname q)))"
    by (subst (asm) ancestors.simps) (auto split: if_splits)
  then show ?case
    using 1 dirname_absolute by blast
qed

lemma find_in_set: "List.find P xs = Some x \<Longrightarrow> x \<in> set xs"
  by (induction xs) (auto split: if_splits)

lemma find_workspace_root_absolute:
  assumes "absolute r" and "find_workspace_root k files r = Inr (Some p)"
  shows "absolute p"
proof -
  from assms(2) have "List.find (\<lambda>p. path_exists files (join p ''WORKSPACE''))
      (take k (ancestors r)) = Some p"
    by (simp add: find_workspace_root_find split: option.splits if_splits)
  then have "p \<in> set (take k (ancestors r))"
    by (rule find_in_set)
  then have "p \<in> set (ancestors r)"
    by (rule in_set_takeD)
  with assms(1) show ?thesis
    by (rule ancestors_absolute)
qed

lemma ancestors_length: "length (ancestors p) \<le> Suc (length p)"
proof (induction p rule: ancestors.induct)
  case (1 p)
  show ?case
  proof (cases "dirname p = p")
    case True
    then show ?thesis by (subst ancestors.simps) simp
  next
    case False
    with 1 have "length (ancestors (dirname p)) \<le> Suc (length (dirname p))" by simp
    moreover from False have "length (dirname p) < length p" by (rule dirname_shorter)
    ultimately show ?thesis
      using False by (subst ancestors.simps) simp
  qed
qed

lemmas selector_eval =
  decide_which_bazel_version_to_use_def example_host_def pinned_fs_def file_node_def dir_node_def
  find_workspace_root.simps dirname_def join_def path_exists_def open_read_def readable_def
  strip_def isspace_def absolute_def


lemma dirname_snoc:
  assumes "xs \<noteq> []" and "last xs \<noteq> CHR ''/''"
  shows "dirname (xs @ ''/a'') = xs"
proof -
  from assms have "rev xs \<noteq> []" and "hd (rev xs) \<noteq> CHR ''/''"
    by (simp_all add: hd_rev)
  then obtain c cs where r: "rev xs = c # cs" and c: "c \<noteq> CHR ''/''"
    by (cases "rev xs") auto
  have "dirname (xs @ ''/a'') = rev (rev xs)"
    unfolding r using c by (simp add: dirname_def r)
  then show ?thesis
    by simp
qed

lemma deep_last: "deep (Suc n) \<noteq> [] \<and> last (deep (Suc n)) = CHR ''a''"
  by simp

lemma ancestors_deep: "length (ancestors (deep n)) = Suc n"
proof (induction n)
  case 0
  show ?case
    by (subst ancestors.simps) (simp add: dirname_def)
next
  case (Suc n)
  show ?case
  proof (cases n)
    case 0
    then show ?thesis
      by (simp add: ancestors.simps dirname_def)
  next
    case (Suc m)
    with deep_last [of m] have "dirname (deep n @ ''/a'') = deep n"
      by (intro dirname_snoc) simp_all
    moreover have "deep n @ ''/a'' \<noteq> deep n"
      by simp
    ultimately show ?thesis
      using Suc.IH by (subst ancestors.simps) simp
  qed
qed

lemma example_ancestors:
  "ancestors ''/home/user/proj/src'' =
     [''/home/user/proj/src'', ''/home/user/proj'', ''/home/user'', ''/home'', ''/'']"
  by (simp add: ancestors.simps dirname_def)

lemma last_segment_no_slash: "CHR ''/'' \<notin> set (last_segment s)"
  by (auto simp add: last_segment_def dest: set_takeWhileD)

lemma lower_Linux: "lower ''Linux'' = ''linux''"
  by code_simp

lemma lower_Darwin: "lower ''Darwin'' = ''darwin''"
  by code_simp

section \<open>Properties of the download\<close>

lemma determine_supported:
  "supported w \<Longrightarrow>
     determine_bazel_filename w v = Inr (artifact_filename v (lower (system w)) ''x86_64'')"
  by (simp add: supported_def determine_bazel_filename_def artifact_filename_def Let_def)

lemma determine_unsupported:
  "\<not> supported w \<Longrightarrow> \<exists>msg. determine_bazel_filename w v = Inl (Exception msg)"
  by (auto simp add: supported_def determine_bazel_filename_def Let_def)

lemma determine_Inr_supported:
  "determine_bazel_filename w v = Inr f \<Longrightarrow> supported w"
  using determine_unsupported [of w v] by auto

lemma determine_only_platform:
  "machine w' = machine w \<Longrightarrow> system w' = system w \<Longrightarrow>
     determine_bazel_filename w' v = determine_bazel_filename w v"
  by (simp add: determine_bazel_filename_def Let_def)

lemma download_rejected:
  "determine_bazel_filename w v = Inl e \<Longrightarrow> download_bazel_into_directory w v d = (Inl e, w)"
  by (simp add: download_bazel_into_directory_def)

lemma download_hit:
  assumes "determine_bazel_filename w v = Inr f" and "fs w (join d f) = Some n"
  shows "download_bazel_into_directory w v d
     = (Inr (join d f), w\<lparr>fs := (fs w)(join d f \<mapsto> n\<lparr>mode := 493\<rparr>)\<rparr>)"
  using assms
  by (simp add: download_bazel_into_directory_def path_exists_def chmod_def Let_def)

lemma download_miss:
  assumes "determine_bazel_filename w v = Inr f" and "fs w (join d f) = None"
  shows "download_bazel_into_directory w v d
     = (case fetch_to w (release_url v f) (join d f) of
          (Inl e, w1) \<Rightarrow> (Inl e, w1)
        | (Inr _, w1) \<Rightarrow>
            (case chmod (fs w1) (join d f) 493 of
               Inl e \<Rightarrow> (Inl e, w1)
             | Inr fs' \<Rightarrow> (Inr (join d f), w1\<lparr>fs := fs'\<rparr>)))"
  using assms
  by (simp add: download_bazel_into_directory_def path_exists_def release_url_def Let_def)

lemma fetch_to_log: "net_log (snd (fetch_to w url p)) = net_log w @ [url]"
  by (simp add: fetch_to_def Let_def split: sum.splits)


lemma fetch_to_Inr:
  "fetch_to w url p = (Inr x, w1) \<Longrightarrow> fs w p = None \<Longrightarrow>
     \<exists>data. w1 = w\<lparr>net_log := net_log w @ [url],
                    fs := (fs w)(p \<mapsto> \<lparr>content = Regular data, mtime = now w, mode = 420\<rparr>)\<rparr>"
  by (auto simp add: fetch_to_def Let_def write_file_def
      split: sum.splits option.splits content.splits if_splits)

lemma read_blocks_fails:
  "n \<noteq> 0 \<Longrightarrow> [] \<notin> set bs \<Longrightarrow>
     read_blocks n (map Data bs @ Err e # rest) acc t = Inl e"
  by (induction bs arbitrary: acc t) auto

lemma node_mode_same: "mode n = m \<Longrightarrow> n\<lparr>mode := m\<rparr> = n"
  by (cases n) simp

lemma download_Inr_ex:
  assumes "download_bazel_into_directory w v d = (Inr p, w1)"
  shows "\<exists>f n. determine_bazel_filename w v = Inr f \<and> p = join d f
     \<and> fs w1 p = Some n \<and> mode n = 493
     \<and> machine w1 = machine w \<and> system w1 = system w
     \<and> net_log w1 = (if path_exists (fs w) p then net_log w else net_log w @ [release_url v f])"
proof -
  from assms obtain f where det: "determine_bazel_filename w v = Inr f"
    using download_rejected [of w v _ d] by (cases "determine_bazel_filename w v") auto
  show ?thesis
  proof (cases "fs w (join d f)")
    case (Some n)
    have "(Inr p, w1) = download_bazel_into_directory w v d"
      using assms by simp
    also have "\<dots> = (Inr (join d f), w\<lparr>fs := (fs w)(join d f \<mapsto> n\<lparr>mode := 493\<rparr>)\<rparr>)"
      by (rule download_hit [OF det Some])
    finally have "p = join d f"
      and "w1 = w\<lparr>fs := (fs w)(join d f \<mapsto> n\<lparr>mode := 493\<rparr>)\<rparr>"
      by (simp_all only: prod.inject sum.inject)
    with det Some show ?thesis
      by (simp add: path_exists_def)
  next
    case None
    obtain r w0 where f: "fetch_to w (release_url v f) (join d f) = (r, w0)"
      by (cases "fetch_to w (release_url v f) (join d f)")
    with assms download_miss [OF det None] obtain x where r: "r = Inr x"
      by (cases r) auto
    from fetch_to_Inr [OF f [unfolded r] None] obtain data where
      w0: "w0 = w\<lparr>net_log := net_log w @ [release_url v f],
                    fs := (fs w)(join d f \<mapsto> \<lparr>content = Regular data, mtime = now w, mode = 420\<rparr>)\<rparr>"
      by blast
    then have c: "chmod (fs w0) (join d f) 493
      = Inr ((fs w0)(join d f \<mapsto> \<lparr>content = Regular data, mtime = now w, mode = 493\<rparr>))"
      by (simp add: chmod_def)
    have "(Inr p, w1) = download_bazel_into_directory w v d"
      using assms by simp
    also have "\<dots> = (Inr (join d f),
         w0\<lparr>fs := (fs w0)(join d f \<mapsto> \<lparr>content = Regular data, mtime = now w, mode = 493\<rparr>)\<rparr>)"
      using download_miss [OF det None] f r c by simp
    finally have "p = join d f"
      and "w1 = w0\<lparr>fs := (fs w0)(join d f \<mapsto> \<lparr>content = Regular data, mtime = now w, mode = 493\<rparr>)\<rparr>"
      by (simp_all only: prod.inject sum.inject)
    with det w0 None show ?thesis
      by (simp add: path_exists_def)
  qed
qed

lemma download_Inr:
  assumes "download_bazel_into_directory w v d = (Inr p, w1)"
  shows "determine_bazel_filename w v = Inr (artifact_filename v (lower (system w)) ''x86_64'')"
    and "p = join d (artifact_filename v (lower (system w)) ''x86_64'')"
    and "map_option mode (fs w1 p) = Some 493"
    and "determine_bazel_filename w1 v = determine_bazel_filename w v"
    and "path_exists (fs w) p \<Longrightarrow> net_log w1 = net_log w"
    and "\<not> path_exists (fs w) p \<Longrightarrow>
           net_log w1 = net_log w
             @ [release_url v (artifact_filename v (lower (system w)) ''x86_64'')]"
proof -
  from download_Inr_ex [OF assms] obtain f where "\<exists>n. determine_bazel_filename w v = Inr f \<and> p = join d f
     \<and> fs w1 p = Some n \<and> mode n = 493
     \<and> machine w1 = machine w \<and> system w1 = system w
     \<and> net_log w1 = (if path_exists (fs w) p then net_log w else net_log w @ [release_url v f])"
    by (rule exE)
  then obtain n where all: "determine_bazel_filename w v = Inr f \<and> p = join d f
     \<and> fs w1 p = Some n \<and> mode n = 493
     \<and> machine w1 = machine w \<and> system w1 = system w
     \<and> net_log w1 = (if path_exists (fs w) p then net_log w else net_log w @ [release_url v f])"
    by (rule exE)
  from all have det: "determine_bazel_filename w v = Inr f"
    by (rule conjunct1)
  then have "supported w"
    by (rule determine_Inr_supported)
  then have "determine_bazel_filename w v = Inr (artifact_filename v (lower (system w)) ''x86_64'')"
    by (rule determine_supported)
  with det have f: "f = artifact_filename v (lower (system w)) ''x86_64''"
    by simp
  show "determine_bazel_filename w v = Inr (artifact_filename v (lower (system w)) ''x86_64'')"
    using det unfolding f .
  show "p = join d (artifact_filename v (lower (system w)) ''x86_64'')"
    using all unfolding f by (elim conjE)
  show "map_option mode (fs w1 p) = Some 493"
    using all by (elim conjE) simp
  show "determine_bazel_filename w1 v = determine_bazel_filename w v"
    using all determine_only_platform [of w1 w v] by (elim conjE) simp
  show "net_log w1 = net_log w" if "path_exists (fs w) p"
    using all that by (elim conjE) simp
  show "net_log w1 = net_log w @ [release_url v (artifact_filename v (lower (system w)) ''x86_64'')]"
    if "\<not> path_exists (fs w) p"
    using all that unfolding f by (elim conjE) simp
qed


lemma download_hit_result:
  assumes "supported w"
    and "path_exists (fs w) (join d (artifact_filename v (lower (system w)) ''x86_64''))"
  shows "fst (download_bazel_into_directory w v d)
        = Inr (join d (artifact_filename v (lower (system w)) ''x86_64''))
      \<and> net_log (snd (download_bazel_into_directory w v d)) = net_log w"
proof -
  let ?f = "artifact_filename v (lower (system w)) ''x86_64''"
  from assms(2) obtain n where n: "fs w (join d ?f) = Some n"
    by (auto simp add: path_exists_def)
  from assms(1) have "determine_bazel_filename w v = Inr ?f"
    by (rule determine_supported)
  from download_hit [OF this n] show ?thesis
    by simp
qed

lemma download_again:
  assumes "download_bazel_into_directory w v d = (Inr p, w1)"
  shows "download_bazel_into_directory w1 v d = (Inr p, w1)
      \<and> (\<not> path_exists (fs w) p \<longrightarrow> length (net_log w1) = Suc (length (net_log w)))
      \<and> (path_exists (fs w) p \<longrightarrow> net_log w1 = net_log w)"
proof -
  let ?f = "artifact_filename v (lower (system w)) ''x86_64''"
  note r = download_Inr [OF assms]
  from r(1) r(4) have det1: "determine_bazel_filename w1 v = Inr ?f"
    by simp
  from r(3) obtain n where n: "fs w1 p = Some n" and m: "mode n = 493"
    by (cases "fs w1 p") auto
  from n have n1: "fs w1 (join d ?f) = Some n"
    unfolding r(2) .
  from m have "n\<lparr>mode := 493\<rparr> = n"
    by (rule node_mode_same)
  with n1 have "(fs w1)(join d ?f \<mapsto> n\<lparr>mode := 493\<rparr>) = fs w1"
    by (simp add: fun_upd_idem)
  then have "w1\<lparr>fs := (fs w1)(join d ?f \<mapsto> n\<lparr>mode := 493\<rparr>)\<rparr> = w1"
    by simp
  with download_hit [OF det1 n1]
  have "download_bazel_into_directory w1 v d = (Inr (join d ?f), w1)"
    by (simp only:)
  then have "download_bazel_into_directory w1 v d = (Inr p, w1)"
    unfolding r(2) .
  moreover from r(6) have "\<not> path_exists (fs w) p \<longrightarrow> length (net_log w1) = Suc (length (net_log w))"
    by simp
  moreover from r(5) have "path_exists (fs w) p \<longrightarrow> net_log w1 = net_log w"
    by simp
  ultimately show ?thesis
    by (intro conjI)
qed




lemma supported_examples:
  "supported ready_host" "supported cached_binary_host" "supported mac_host"
  "supported broken_host" "\<not> supported arm_host"
  by (simp_all add: supported_def host_defs cached_binary_host_def mac_host_def
      broken_host_def arm_host_def lower_Linux lower_Darwin)

lemmas download_eval =
  download_bazel_into_directory_def determine_bazel_filename_def fetch_to_def Let_def
  path_exists_def join_def write_file_def parent_directory_def dirname_def writable_def
  chmod_def lower_Linux lower_Darwin

lemma example_download:
  "download_bazel_into_directory ready_host ''7.0.0'' bin_dir
     = (Inr ''/home/user/.bazelisk/bin/bazel-7.0.0-linux-x86_64'',
        ready_host\<lparr>net_log := [''https://releases.bazel.build/7.0.0/release/bazel-7.0.0-linux-x86_64''],
          fs := cache_dirs(''/home/user/.bazelisk/bin/bazel-7.0.0-linux-x86_64''
                   \<mapsto> \<lparr>content = Regular ''0123456789'', mtime = 5000, mode = 493\<rparr>)\<rparr>)"
  by (simp add: download_eval host_defs)

lemma mac_download:
  "fst (download_bazel_into_directory mac_host ''6.4.0'' bin_dir)
     = Inr ''/home/user/.bazelisk/bin/bazel-6.4.0-darwin-x86_64''"
  by (simp add: download_eval host_defs mac_host_def)

lemma cached_download:
  "download_bazel_into_directory cached_binary_host ''7.0.0'' bin_dir
     = (Inr ''/home/user/.bazelisk/bin/bazel-7.0.0-linux-x86_64'',
        cached_binary_host\<lparr>fs := cache_dirs(''/home/user/.bazelisk/bin/bazel-7.0.0-linux-x86_64''
                   \<mapsto> file_node ''old'' 100 493)\<rparr>)"
  by (simp add: download_eval host_defs cached_binary_host_def file_node_def)

lemma supported_fs_update: "supported (w\<lparr>fs := x\<rparr>) = supported w"
  by (simp add: supported_def)

lemma resolve_latest_version_supported:
  "supported (snd (resolve_latest_version w)) = supported w"
  by (simp add: resolve_latest_version_def Let_def supported_def split: sum.splits)

lemma resolve_supported:
  "supported (snd (resolve_version_label_to_number w d label)) = supported w"
proof (cases "label = ''latest''")
  case False
  then show ?thesis
    by (simp add: resolve_version_label_to_number_def)
next
  case True
  obtain r w1 where n: "resolve_latest_version w = (r, w1)"
    by (cases "resolve_latest_version w")
  with resolve_latest_version_supported [of w] have s: "supported w1 = supported w"
    by simp
  from True n s show ?thesis
    by (simp add: resolve_version_label_to_number_def Let_def supported_fs_update
        split: sum.splits option.splits)
qed

lemma main_Inr_supported:
  assumes "fst (main w argv) = Inr c"
  shows "supported w"
proof -
  let ?bd = "join (home w) ''.bazelisk''"
  from assms obtain fs1 where m1: "makedirs (fs w) (now w) ?bd = Inr fs1"
    by (cases "makedirs (fs w) (now w) ?bd") (simp_all add: main_def Let_def)
  let ?w1 = "w\<lparr>fs := fs1\<rparr>"
  from assms m1 obtain label where l: "decide_which_bazel_version_to_use ?w1 = Inr label"
    by (cases "decide_which_bazel_version_to_use ?w1") (simp_all add: main_def Let_def)
  obtain r w2 where rs: "resolve_version_label_to_number ?w1 ?bd label = (r, w2)"
    by (cases "resolve_version_label_to_number ?w1 ?bd label")
  with assms m1 l obtain bv where r: "r = Inr bv"
    by (cases r) (simp_all add: main_def Let_def)
  from assms m1 l rs r obtain fs3 where m3: "makedirs (fs w2) (now w2) (join ?bd ''bin'') = Inr fs3"
    by (cases "makedirs (fs w2) (now w2) (join ?bd ''bin'')") (simp_all add: main_def Let_def)
  let ?w3 = "w2\<lparr>fs := fs3\<rparr>"
  obtain q w4 where d: "download_bazel_into_directory ?w3 bv (join ?bd ''bin'') = (q, w4)"
    by (cases "download_bazel_into_directory ?w3 bv (join ?bd ''bin'')")
  with assms m1 l rs r m3 obtain p where q: "q = Inr p"
    by (cases q) (simp_all add: main_def Let_def)
  from d q have "supported ?w3"
    by (auto dest: download_Inr(1) determine_Inr_supported)
  then have "supported w2"
    by (simp add: supported_fs_update)
  with resolve_supported [of ?w1 ?bd label] rs have "supported ?w1"
    by simp
  then show ?thesis
    by (simp add: supported_fs_update)
qed

lemma arm_determine:
  "determine_bazel_filename arm_host v = Inl (Exception arm64_message)"
  by (simp add: determine_bazel_filename_def arm_host_def host_defs)

lemma arm_main:
  "main arm_host [''bazelisk'', ''build'']
     = (Inl (Exception arm64_message),
        arm_host\<lparr>fs := [''/home/user/.bazelisk'' \<mapsto> dir_node 5000 493,
                         ''/home/user/.bazelisk/latest_bazel'' \<mapsto> file_node ''9.1.0'' 5000 420,
                         ''/home/user/.bazelisk/bin'' \<mapsto> dir_node 5000 493],
                  net_log := [latest_url]\<rparr>)"
  by (simp add: main_def Let_def makedirs_def decide_which_bazel_version_to_use_def
      find_workspace_root.simps dirname_def join_def path_exists_def
      resolve_version_label_to_number_def read_latest_cache_def getmtime_def
      resolve_latest_version_def last_segment_def write_file_def parent_directory_def
      writable_def
      download_bazel_into_directory_def determine_bazel_filename_def
      arm_host_def host_defs dir_node_def file_node_def)

section \<open>The version selector\<close>




text \<open>
  C7, as the program has it. With no override and a workspace root found from an absolute
  working directory: an absent pin file gives \<open>latest\<close>; a pin file without read
  permission raises \<open>PermissionError\<close>; a pin path that is a directory raises
  \<open>IsADirectoryError\<close>. Only \<open>FileNotFoundError\<close> is caught.
\<close>

theorem pin_file_absent_or_unreadable:
  assumes "environ w ''USE_BAZEL_VERSION'' = None"
    and "absolute (cwd w)"
    and "find_workspace_root (recursion_room w) (fs w) (cwd w) = Inr (Some r)"
  shows "(fs w (join r ''.bazelversion'') = None \<longrightarrow>
            decide_which_bazel_version_to_use w = Inr ''latest'')
     \<and> (fs w (join r ''.bazelversion'') = Some n \<and> \<not> readable n \<longrightarrow>
            decide_which_bazel_version_to_use w = Inl PermissionError)
     \<and> (fs w (join r ''.bazelversion'') = Some n \<and> readable n \<and> content n = Directory \<longrightarrow>
            decide_which_bazel_version_to_use w = Inl IsADirectoryError)"
proof -
  from assms(2,3) have "absolute r"
    using find_workspace_root_absolute by blast
  then have "r \<noteq> []"
    by (simp add: absolute_def)
  with assms(1,3) show ?thesis
    by (simp add: decide_which_bazel_version_to_use_def open_read_def)
qed

theorem pin_file_absent_or_unreadable_witness:
  "decide_which_bazel_version_to_use no_pin_host = Inr ''latest''
   \<and> decide_which_bazel_version_to_use locked_pin_host = Inl PermissionError
   \<and> decide_which_bazel_version_to_use dir_pin_host = Inl IsADirectoryError"
proof -
  have a: "environ no_pin_host ''USE_BAZEL_VERSION'' = None" "absolute (cwd no_pin_host)"
    "find_workspace_root (recursion_room no_pin_host) (fs no_pin_host) (cwd no_pin_host) = Inr (Some ''/home/user/proj'')"
    "fs no_pin_host (join ''/home/user/proj'' ''.bazelversion'') = None"
    by (simp_all add: no_pin_host_def selector_eval)
  have b: "environ locked_pin_host ''USE_BAZEL_VERSION'' = None" "absolute (cwd locked_pin_host)"
    "find_workspace_root (recursion_room locked_pin_host) (fs locked_pin_host) (cwd locked_pin_host) = Inr (Some ''/home/user/proj'')"
    "fs locked_pin_host (join ''/home/user/proj'' ''.bazelversion'') = Some (file_node ''7.0.0'' 100 0)"
    "\<not> readable (file_node ''7.0.0'' 100 0)"
    by (simp_all add: locked_pin_host_def selector_eval)
  have c: "environ dir_pin_host ''USE_BAZEL_VERSION'' = None" "absolute (cwd dir_pin_host)"
    "find_workspace_root (recursion_room dir_pin_host) (fs dir_pin_host) (cwd dir_pin_host) = Inr (Some ''/home/user/proj'')"
    "fs dir_pin_host (join ''/home/user/proj'' ''.bazelversion'') = Some (dir_node 100 493)"
    "readable (dir_node 100 493)" "content (dir_node 100 493) = Directory"
    by (simp_all add: dir_pin_host_def selector_eval)
  from pin_file_absent_or_unreadable [OF a(1,2,3), of "dir_node 100 493"] a(4)
  have 1: "decide_which_bazel_version_to_use no_pin_host = Inr ''latest''" by blast
  from pin_file_absent_or_unreadable [OF b(1,2,3), of "file_node ''7.0.0'' 100 0"] b(4,5)
  have 2: "decide_which_bazel_version_to_use locked_pin_host = Inl PermissionError" by blast
  from pin_file_absent_or_unreadable [OF c(1,2,3), of "dir_node 100 493"] c(4,5,6)
  have 3: "decide_which_bazel_version_to_use dir_pin_host = Inl IsADirectoryError" by blast
  from 1 2 3 show ?thesis by simp
qed

text \<open>
  C7 as stated fails: the pin file exists with no permission bits, no override is set, and
  the selector raises \<open>PermissionError\<close> instead of returning \<open>latest\<close>.
\<close>

theorem unreadable_pin_falls_through_counterexample:
  "environ locked_pin_host ''USE_BAZEL_VERSION'' = None
   \<and> find_workspace_root (recursion_room locked_pin_host) (fs locked_pin_host) (cwd locked_pin_host) = Inr (Some ''/home/user/proj'')
   \<and> path_exists (fs locked_pin_host) (join ''/home/user/proj'' ''.bazelversion'')
   \<and> open_read (fs locked_pin_host) (join ''/home/user/proj'' ''.bazelversion'') = Inl PermissionError
   \<and> decide_which_bazel_version_to_use locked_pin_host = Inl PermissionError
   \<and> decide_which_bazel_version_to_use locked_pin_host \<noteq> Inr ''latest''"
  by (simp add: locked_pin_host_def selector_eval)

text \<open>
  C9, as the program has it. The walk never loops: each step goes to the parent, which is
  shorter, and the walk stops where the parent equals the directory, so it visits at most one
  directory more than the start has characters. Each step is a recursive call. With room
  for \<open>k\<close> nested calls, \<open>find_workspace_root\<close> returns the first of the first \<open>k\<close>
  directories of the walk that holds a \<open>WORKSPACE\<close> entry; when none of them does, it returns
  \<open>None\<close> if the walk has at most \<open>k\<close> directories and raises \<open>RecursionError\<close> otherwise.
  So with no override and no \<open>WORKSPACE\<close> entry up to the root, the selector returns
  \<open>latest\<close> when the walk fits into the room the recursion limit leaves, and raises
  \<open>RecursionError\<close> when it does not.
\<close>

theorem walk_terminates_within_recursion_limit:
  "ancestors r = r # (if dirname r \<noteq> r then ancestors (dirname r) else [])
   \<and> length (ancestors r) \<le> Suc (length r)
   \<and> find_workspace_root k files r =
       (case List.find (\<lambda>p. path_exists files (join p ''WORKSPACE'')) (take k (ancestors r)) of
          Some p \<Rightarrow> Inr (Some p)
        | None \<Rightarrow> if k < length (ancestors r) then Inl RecursionError else Inr None)
   \<and> (environ w ''USE_BAZEL_VERSION'' = None
        \<and> (\<forall>p \<in> set (ancestors (cwd w)). \<not> path_exists (fs w) (join p ''WORKSPACE'')) \<longrightarrow>
      decide_which_bazel_version_to_use w =
        (if length (ancestors (cwd w)) \<le> recursion_room w then Inr ''latest''
         else Inl RecursionError))"
proof -
  have unfold: "ancestors r = r # (if dirname r \<noteq> r then ancestors (dirname r) else [])"
    by (rule ancestors.simps)
  have none: "decide_which_bazel_version_to_use w =
        (if length (ancestors (cwd w)) \<le> recursion_room w then Inr ''latest''
         else Inl RecursionError)"
    if "environ w ''USE_BAZEL_VERSION'' = None
        \<and> (\<forall>p \<in> set (ancestors (cwd w)). \<not> path_exists (fs w) (join p ''WORKSPACE''))"
  proof -
    from that have "\<forall>p \<in> set (take (recursion_room w) (ancestors (cwd w))).
        \<not> path_exists (fs w) (join p ''WORKSPACE'')"
      by (auto dest: in_set_takeD)
    then have "List.find (\<lambda>p. path_exists (fs w) (join p ''WORKSPACE''))
        (take (recursion_room w) (ancestors (cwd w))) = None"
      by (simp add: find_None_iff)
    then have "find_workspace_root (recursion_room w) (fs w) (cwd w) =
        (if recursion_room w < length (ancestors (cwd w)) then Inl RecursionError else Inr None)"
      by (simp add: find_workspace_root_find)
    with that show ?thesis
      by (simp add: decide_which_bazel_version_to_use_def)
  qed
  from unfold ancestors_length [of r] find_workspace_root_find [of k files r] none
  show ?thesis
    by (intro conjI impI)
qed

text \<open>
  From \<open>/home/user/proj/src\<close> the walk visits five directories and the selector returns
  \<open>latest\<close>; with room for three calls only, the same walk raises \<open>RecursionError\<close>.
\<close>

theorem walk_terminates_within_recursion_limit_witness:
  "environ example_host ''USE_BAZEL_VERSION'' = None
   \<and> ancestors (cwd example_host)
       = [''/home/user/proj/src'', ''/home/user/proj'', ''/home/user'', ''/home'', ''/'']
   \<and> find_workspace_root (recursion_room example_host) (fs example_host) (cwd example_host)
       = Inr None
   \<and> decide_which_bazel_version_to_use example_host = Inr ''latest''
   \<and> find_workspace_root 3 (fs example_host) (cwd example_host) = Inl RecursionError
   \<and> decide_which_bazel_version_to_use (example_host\<lparr>recursion_room := 3\<rparr>)
       = Inl RecursionError"
proof -
  let ?w = "example_host\<lparr>recursion_room := 3\<rparr>"
  let ?P = "\<lambda>p. path_exists (fs example_host) (join p ''WORKSPACE'')"
  have e: "environ example_host ''USE_BAZEL_VERSION'' = None" "environ ?w ''USE_BAZEL_VERSION'' = None"
    by (simp_all add: host_defs)
  have c: "cwd example_host = ''/home/user/proj/src''" "cwd ?w = ''/home/user/proj/src''"
    "recursion_room example_host = 990" "recursion_room ?w = 3" "fs ?w = fs example_host"
    by (simp_all add: host_defs)
  have a: "\<forall>p \<in> set (ancestors (cwd example_host)). \<not> ?P p"
    by (simp add: host_defs path_exists_def)
  have f: "List.find ?P (take k (ancestors (cwd example_host))) = None" for k
    using a by (auto simp add: find_None_iff dest: in_set_takeD)
  have l: "length (ancestors (cwd example_host)) = 5"
    by (simp add: c example_ancestors)
  note t1 = walk_terminates_within_recursion_limit
    [of "cwd example_host" "recursion_room example_host" "fs example_host" example_host]
  note t2 = walk_terminates_within_recursion_limit
    [of "cwd example_host" 3 "fs example_host" ?w]
  from t1 [THEN conjunct2, THEN conjunct2, THEN conjunct1, unfolded f] l c
  have 1: "find_workspace_root (recursion_room example_host) (fs example_host) (cwd example_host)
       = Inr None"
    by simp
  from t1 [THEN conjunct2, THEN conjunct2, THEN conjunct2] e a l c
  have 2: "decide_which_bazel_version_to_use example_host = Inr ''latest''"
    by simp
  from t2 [THEN conjunct2, THEN conjunct2, THEN conjunct1, unfolded f] l
  have 3: "find_workspace_root 3 (fs example_host) (cwd example_host) = Inl RecursionError"
    by simp
  from t2 [THEN conjunct2, THEN conjunct2, THEN conjunct2] e a l c
  have 4: "decide_which_bazel_version_to_use ?w = Inl RecursionError"
    by simp
  from c(1) example_ancestors have 5: "ancestors (cwd example_host)
       = [''/home/user/proj/src'', ''/home/user/proj'', ''/home/user'', ''/home'', ''/'']"
    by simp
  from e(1) 5 1 2 3 4 show ?thesis
    by (intro conjI)
qed

text \<open>
  C9 as stated fails for a deep working directory: 1100 directories below the root, with no
  \<open>WORKSPACE\<close> anywhere and no override, and with room for 1000 nested calls (the whole
  default recursion limit), the selector raises \<open>RecursionError\<close> instead of returning
  \<open>latest\<close>.
\<close>

theorem deep_directory_recursion_counterexample:
  "environ deep_host ''USE_BAZEL_VERSION'' = None
   \<and> fs deep_host = Map.empty
   \<and> cwd deep_host = deep 1100
   \<and> length (deep 1100) = 2200
   \<and> recursion_room deep_host = 1000
   \<and> decide_which_bazel_version_to_use deep_host = Inl RecursionError
   \<and> decide_which_bazel_version_to_use deep_host \<noteq> Inr ''latest''"
proof -
  have h: "environ deep_host ''USE_BAZEL_VERSION'' = None" "fs deep_host = Map.empty"
    "cwd deep_host = deep 1100" "recursion_room deep_host = 1000"
    by (simp_all add: deep_host_def host_defs)
  have len: "length (deep n) = 2 * n" for n
    by (induction n) simp_all
  have "List.find (\<lambda>p. path_exists Map.empty (join p ''WORKSPACE''))
      (take 1000 (ancestors (deep 1100))) = None"
    by (simp add: find_None_iff path_exists_def)
  then have "find_workspace_root 1000 Map.empty (deep 1100) = Inl RecursionError"
    by (simp add: find_workspace_root_find ancestors_deep)
  with h have d: "decide_which_bazel_version_to_use deep_host = Inl RecursionError"
    by (simp add: decide_which_bazel_version_to_use_def)
  from h d len [of 1100] show ?thesis
    by simp
qed

section \<open>Resolving the latest version\<close>

text \<open>
  C2, as the program has it. For the descriptor \<open>latest\<close>, with the cache file
  \<open>latest_bazel\<close> in the cache directory: when it is a readable regular file whose
  modification time differs from the current time by less than 3600 seconds in either
  direction, the result is its stripped contents and the host is unchanged, so no request is
  made. When it is that fresh and not readable, \<open>PermissionError\<close> is raised and no
  request is made. When it is absent or at least 3600 seconds away, one request for the
  latest release is made. When that request succeeds and the file can be written (it is
  absent from a writable directory, or it is a writable regular file), the result is the
  last segment of the redirect URL, and the cache file holds it with the current time as its
  modification time.
\<close>

theorem latest_cache_ttl:
  "(fs w (join d ''latest_bazel'') = Some n \<and> readable n \<and> content n = Regular s
      \<and> \<bar>now w - mtime n\<bar> < 3600 \<longrightarrow>
      resolve_version_label_to_number w d ''latest'' = (Inr (strip s), w))
   \<and> (fs w (join d ''latest_bazel'') = Some n \<and> \<not> readable n
      \<and> \<bar>now w - mtime n\<bar> < 3600 \<longrightarrow>
      resolve_version_label_to_number w d ''latest'' = (Inl PermissionError, w))
   \<and> (fs w (join d ''latest_bazel'') = None
        \<or> fs w (join d ''latest_bazel'') = Some n \<and> \<not> \<bar>now w - mtime n\<bar> < 3600 \<longrightarrow>
      net_log (snd (resolve_version_label_to_number w d ''latest'')) = net_log w @ [latest_url])
   \<and> (latest_redirect w = Inr url
        \<and> (fs w (join d ''latest_bazel'') = None
             \<and> writable_directory (fs w) (parent_directory (cwd w) (join d ''latest_bazel''))
           \<or> fs w (join d ''latest_bazel'') = Some n \<and> \<not> \<bar>now w - mtime n\<bar> < 3600
              \<and> content n = Regular s \<and> writable n) \<longrightarrow>
      fst (resolve_version_label_to_number w d ''latest'') = Inr (last_segment url)
      \<and> map_option content (fs (snd (resolve_version_label_to_number w d ''latest''))
            (join d ''latest_bazel'')) = Some (Regular (last_segment url))
      \<and> getmtime (fs (snd (resolve_version_label_to_number w d ''latest'')))
            (join d ''latest_bazel'') = Inr (now w))"
proof -
  let ?c = "join d ''latest_bazel''"
  let ?r = "resolve_version_label_to_number w d ''latest''"
  have hit: "?r = (Inr (strip s), w)"
    if "fs w ?c = Some n \<and> readable n \<and> content n = Regular s \<and> \<bar>now w - mtime n\<bar> < 3600"
    using that
    by (simp add: resolve_version_label_to_number_def read_latest_cache_def getmtime_def
        open_read_def ONE_HOUR_def)
  have locked: "?r = (Inl PermissionError, w)"
    if "fs w ?c = Some n \<and> \<not> readable n \<and> \<bar>now w - mtime n\<bar> < 3600"
    using that
    by (simp add: resolve_version_label_to_number_def read_latest_cache_def getmtime_def
        open_read_def ONE_HOUR_def)
  have miss: "read_latest_cache w ?c = Inr None"
    if "fs w ?c = None \<or> fs w ?c = Some n \<and> \<not> \<bar>now w - mtime n\<bar> < 3600"
    using that by (auto simp add: read_latest_cache_def getmtime_def ONE_HOUR_def)
  have call: "net_log (snd ?r) = net_log w @ [latest_url]"
    if "fs w ?c = None \<or> fs w ?c = Some n \<and> \<not> \<bar>now w - mtime n\<bar> < 3600"
    using miss [OF that]
    by (simp add: resolve_version_label_to_number_def resolve_latest_version_def Let_def
        split: sum.splits)
  have renew: "fst ?r = Inr (last_segment url)
      \<and> map_option content (fs (snd ?r) ?c) = Some (Regular (last_segment url))
      \<and> getmtime (fs (snd ?r) ) ?c = Inr (now w)"
    if h: "latest_redirect w = Inr url
        \<and> (fs w ?c = None \<and> writable_directory (fs w) (parent_directory (cwd w) ?c)
           \<or> fs w ?c = Some n \<and> \<not> \<bar>now w - mtime n\<bar> < 3600
              \<and> content n = Regular s \<and> writable n)"
  proof -
    from h have m: "read_latest_cache w ?c = Inr None"
      using miss by blast
    from h have net: "resolve_latest_version w
        = (Inr (last_segment url), w\<lparr>net_log := net_log w @ [latest_url]\<rparr>)"
      by (simp add: resolve_latest_version_def)
    from h have "fs w ?c = None \<and> writable_directory (fs w) (parent_directory (cwd w) ?c)
        \<or> fs w ?c = Some n \<and> content n = Regular s \<and> writable n"
      by blast
    then show ?thesis
    proof
      assume a: "fs w ?c = None \<and> writable_directory (fs w) (parent_directory (cwd w) ?c)"
      then obtain dn where "fs w (parent_directory (cwd w) ?c) = Some dn"
        and "content dn = Directory" and "writable dn"
        by (auto simp add: writable_directory_def split: option.splits)
      with a m net show ?thesis
        by (simp add: resolve_version_label_to_number_def write_file_def getmtime_def)
    next
      assume "fs w ?c = Some n \<and> content n = Regular s \<and> writable n"
      with m net show ?thesis
        by (simp add: resolve_version_label_to_number_def write_file_def getmtime_def)
    qed
  qed
  from hit locked call renew show ?thesis
    by blast
qed

text \<open>
  The cache written at time 1000 is used at 1000 + 1800 and renewed at 1000 + 3700; a fresh
  cache without permission bits raises; with no cache file the network is asked.
\<close>

theorem latest_cache_ttl_witness:
  "resolve_version_label_to_number (cache_host (1000 + 1800)) ''/home/user/.bazelisk'' ''latest''
     = (Inr ''8.0.0'', cache_host (1000 + 1800))
   \<and> resolve_version_label_to_number unreadable_cache_host ''/home/user/.bazelisk'' ''latest''
     = (Inl PermissionError, unreadable_cache_host)
   \<and> net_log (snd (resolve_version_label_to_number (cache_host (1000 + 3700))
        ''/home/user/.bazelisk'' ''latest'')) = [latest_url]
   \<and> fst (resolve_version_label_to_number (cache_host (1000 + 3700))
        ''/home/user/.bazelisk'' ''latest'') = Inr ''9.1.0''
   \<and> fst (resolve_version_label_to_number ready_host ''/home/user/.bazelisk'' ''latest'')
        = Inr ''9.1.0''"
proof -
  let ?n = "file_node ''8.0.0'' 1000 420"
  let ?m = "file_node ''8.0.0'' 4000 0"
  let ?d = "''/home/user/.bazelisk''"
  let ?u = "''https://github.com/bazelbuild/bazel/releases/tag/9.1.0''"
  have j: "join ?d ''latest_bazel'' = ''/home/user/.bazelisk/latest_bazel''"
    by (simp add: join_def)
  have f: "fs (cache_host t) (join ?d ''latest_bazel'') = Some ?n" for t
    by (simp add: cache_host_def host_defs join_def)
  have n: "readable ?n" "writable ?n" "content ?n = Regular ''8.0.0''" "mtime ?n = 1000"
    by (simp_all add: file_node_def readable_def writable_def)
  have t: "now (cache_host t) = t" "net_log (cache_host t) = []"
    "latest_redirect (cache_host t) = Inr ?u" for t
    by (simp_all add: cache_host_def example_host_def)
  have x: "fs unreadable_cache_host (join ?d ''latest_bazel'') = Some ?m"
    "\<not> readable ?m" "\<bar>now unreadable_cache_host - mtime ?m\<bar> < 3600"
    by (simp_all add: unreadable_cache_host_def host_defs join_def readable_def)
  have e: "fs ready_host (join ?d ''latest_bazel'') = None"
    "latest_redirect ready_host = Inr ?u"
    "writable_directory (fs ready_host) (parent_directory (cwd ready_host) (join ?d ''latest_bazel''))"
    by (simp_all add: host_defs join_def writable_directory_def parent_directory_def
        dirname_def writable_def)
  have s: "strip ''8.0.0'' = ''8.0.0''" "last_segment ?u = ''9.1.0''"
    by (simp_all add: strip_def isspace_def last_segment_def)
  have fresh: "\<bar>now (cache_host (1000 + 1800)) - mtime ?n\<bar> < 3600"
    by (simp add: t n)
  have stale: "\<not> \<bar>now (cache_host (1000 + 3700)) - mtime ?n\<bar> < 3600"
    by (simp add: t n)
  from latest_cache_ttl [of "cache_host (1000 + 1800)" ?d ?n "''8.0.0''" "[]"] f n fresh s
  have 1: "resolve_version_label_to_number (cache_host (1000 + 1800)) ?d ''latest''
     = (Inr ''8.0.0'', cache_host (1000 + 1800))"
    by simp
  from latest_cache_ttl [of unreadable_cache_host ?d ?m "[]" "[]"] x
  have 2: "resolve_version_label_to_number unreadable_cache_host ?d ''latest''
     = (Inl PermissionError, unreadable_cache_host)"
    by blast
  from latest_cache_ttl [of "cache_host (1000 + 3700)" ?d ?n "''8.0.0''" ?u] f n stale s t
  have 3: "net_log (snd (resolve_version_label_to_number (cache_host (1000 + 3700)) ?d ''latest''))
      = [latest_url]
    \<and> fst (resolve_version_label_to_number (cache_host (1000 + 3700)) ?d ''latest'') = Inr ''9.1.0''"
    by simp
  from latest_cache_ttl [of ready_host ?d ?n "''8.0.0''" ?u] e s
  have 4: "fst (resolve_version_label_to_number ready_host ?d ''latest'') = Inr ''9.1.0''"
    by simp
  from 1 2 3 4 show ?thesis
    by (intro conjI) (elim conjE, assumption)+
qed

text \<open>
  C2 as stated fails: the cache file exists and is 1000 seconds old, but it has no
  permission bits; the resolution raises \<open>PermissionError\<close> and returns no version.
\<close>

theorem fresh_unreadable_cache_counterexample:
  "path_exists (fs unreadable_cache_host) ''/home/user/.bazelisk/latest_bazel''
   \<and> getmtime (fs unreadable_cache_host) ''/home/user/.bazelisk/latest_bazel'' = Inr 4000
   \<and> now unreadable_cache_host = 5000
   \<and> \<bar>(5000::real) - 4000\<bar> < 3600
   \<and> resolve_version_label_to_number unreadable_cache_host ''/home/user/.bazelisk'' ''latest''
       = (Inl PermissionError, unreadable_cache_host)"
  by (simp add: unreadable_cache_host_def host_defs path_exists_def getmtime_def join_def
      resolve_version_label_to_number_def read_latest_cache_def open_read_def readable_def
      ONE_HOUR_def)

text \<open>
  C8, as the program has it. No stage checks the version string. A descriptor other than
  \<open>latest\<close> is the resolved version, unchanged, and the host is unchanged. A version that
  the network request returns is the last segment of a URL and so has no slash.
\<close>

theorem resolved_version_is_unvalidated:
  "(version \<noteq> ''latest'' \<longrightarrow>
      resolve_version_label_to_number w d version = (Inr version, w))
   \<and> (resolve_latest_version w = (Inr v, w') \<longrightarrow> CHR ''/'' \<notin> set v)"
  by (auto simp add: resolve_version_label_to_number_def resolve_latest_version_def Let_def
      last_segment_no_slash split: sum.splits)

theorem resolved_version_is_unvalidated_witness:
  "''6.4.0'' \<noteq> ''latest''
   \<and> resolve_version_label_to_number example_host ''/home/user/.bazelisk'' ''6.4.0''
       = (Inr ''6.4.0'', example_host)
   \<and> resolve_latest_version example_host
       = (Inr ''9.1.0'', example_host\<lparr>net_log := [latest_url]\<rparr>)
   \<and> CHR ''/'' \<notin> set ''9.1.0''"
proof -
  have r: "resolve_latest_version example_host
       = (Inr ''9.1.0'', example_host\<lparr>net_log := [latest_url]\<rparr>)"
    by (simp add: resolve_latest_version_def host_defs last_segment_def)
  from resolved_version_is_unvalidated
    [of "''6.4.0''" example_host "''/home/user/.bazelisk''" "''9.1.0''"
        "example_host\<lparr>net_log := [latest_url]\<rparr>"] r
  show ?thesis by simp
qed

text \<open>
  C8 as stated fails: an empty override is resolved to the empty version, which names the
  file \<open>bazel--linux-x86_64\<close>, and an override with a slash is resolved to itself.
\<close>

theorem resolved_version_nonempty_counterexample:
  "decide_which_bazel_version_to_use empty_override_host = Inr []
   \<and> resolve_version_label_to_number empty_override_host ''/home/user/.bazelisk'' []
       = (Inr [], empty_override_host)
   \<and> determine_bazel_filename empty_override_host [] = Inr ''bazel--linux-x86_64''
   \<and> decide_which_bazel_version_to_use slash_override_host = Inr ''../7.0.0''
   \<and> resolve_version_label_to_number slash_override_host ''/home/user/.bazelisk'' ''../7.0.0''
       = (Inr ''../7.0.0'', slash_override_host)
   \<and> CHR ''/'' \<in> set ''../7.0.0''"
  by (simp add: empty_override_host_def slash_override_host_def host_defs
      decide_which_bazel_version_to_use_def resolve_version_label_to_number_def
      determine_bazel_filename_def lower_Linux)

section \<open>Naming and downloading\<close>

text \<open>
  C5. On a supported platform the file name is \<open>bazel-\<close>, the version, the lower-case
  operating system and the architecture, joined by hyphens; when the destination is absent
  the URL requested is \<open>https://releases.bazel.build/\<close>, the version, \<open>/release/\<close> and
  the file name; and a path that the download returns is the directory joined with the
  file name. All three are functions of the version, the platform and the directory.
\<close>

theorem artifact_naming:
  assumes "supported w"
  shows "determine_bazel_filename w v = Inr (artifact_filename v (lower (system w)) ''x86_64'')
     \<and> (\<not> path_exists (fs w) (join d (artifact_filename v (lower (system w)) ''x86_64'')) \<longrightarrow>
          net_log (snd (download_bazel_into_directory w v d))
            = net_log w @ [release_url v (artifact_filename v (lower (system w)) ''x86_64'')])
     \<and> (fst (download_bazel_into_directory w v d) = Inr p \<longrightarrow>
          p = join d (artifact_filename v (lower (system w)) ''x86_64''))"
proof -
  let ?f = "artifact_filename v (lower (system w)) ''x86_64''"
  from assms have det: "determine_bazel_filename w v = Inr ?f"
    by (rule determine_supported)
  have url: "net_log (snd (download_bazel_into_directory w v d)) = net_log w @ [release_url v ?f]"
    if "\<not> path_exists (fs w) (join d ?f)"
  proof -
    from that have "fs w (join d ?f) = None"
      by (simp add: path_exists_def)
    from download_miss [OF det this] fetch_to_log [of w "release_url v ?f" "join d ?f"]
    show ?thesis
      by (auto split: prod.splits sum.splits)
  qed
  have path: "p = join d ?f" if "fst (download_bazel_into_directory w v d) = Inr p"
    using that det
    by (auto simp add: download_bazel_into_directory_def Let_def split: prod.splits sum.splits if_splits)
  from det url path show ?thesis
    by blast
qed

text \<open>
  Version 7.0.0 on Linux and version 6.4.0 on macOS.
\<close>

theorem artifact_naming_witness:
  "determine_bazel_filename ready_host ''7.0.0'' = Inr ''bazel-7.0.0-linux-x86_64''
   \<and> net_log (snd (download_bazel_into_directory ready_host ''7.0.0'' bin_dir))
      = [''https://releases.bazel.build/7.0.0/release/bazel-7.0.0-linux-x86_64'']
   \<and> fst (download_bazel_into_directory ready_host ''7.0.0'' bin_dir)
      = Inr ''/home/user/.bazelisk/bin/bazel-7.0.0-linux-x86_64''
   \<and> determine_bazel_filename mac_host ''6.4.0'' = Inr ''bazel-6.4.0-darwin-x86_64''
   \<and> net_log (snd (download_bazel_into_directory mac_host ''6.4.0'' bin_dir))
      = [''https://releases.bazel.build/6.4.0/release/bazel-6.4.0-darwin-x86_64'']
   \<and> fst (download_bazel_into_directory mac_host ''6.4.0'' bin_dir)
      = Inr ''/home/user/.bazelisk/bin/bazel-6.4.0-darwin-x86_64''"
proof -
  have l: "lower (system ready_host) = ''linux''" "lower (system mac_host) = ''darwin''"
    by (simp_all add: host_defs mac_host_def lower_Linux lower_Darwin)
  have f: "artifact_filename ''7.0.0'' ''linux'' ''x86_64'' = ''bazel-7.0.0-linux-x86_64''"
    "artifact_filename ''6.4.0'' ''darwin'' ''x86_64'' = ''bazel-6.4.0-darwin-x86_64''"
    by (simp_all add: artifact_filename_def)
  have u: "release_url ''7.0.0'' ''bazel-7.0.0-linux-x86_64''
      = ''https://releases.bazel.build/7.0.0/release/bazel-7.0.0-linux-x86_64''"
    "release_url ''6.4.0'' ''bazel-6.4.0-darwin-x86_64''
      = ''https://releases.bazel.build/6.4.0/release/bazel-6.4.0-darwin-x86_64''"
    by (simp_all add: release_url_def)
  have j: "join bin_dir ''bazel-7.0.0-linux-x86_64''
      = ''/home/user/.bazelisk/bin/bazel-7.0.0-linux-x86_64''"
    "join bin_dir ''bazel-6.4.0-darwin-x86_64''
      = ''/home/user/.bazelisk/bin/bazel-6.4.0-darwin-x86_64''"
    by (simp_all add: join_def)
  have a: "\<not> path_exists (fs ready_host) ''/home/user/.bazelisk/bin/bazel-7.0.0-linux-x86_64''"
    "\<not> path_exists (fs mac_host) ''/home/user/.bazelisk/bin/bazel-6.4.0-darwin-x86_64''"
    "net_log ready_host = []" "net_log mac_host = []"
    by (simp_all add: host_defs mac_host_def path_exists_def)
  have p: "fst (download_bazel_into_directory ready_host ''7.0.0'' bin_dir)
      = Inr (snd (''x'', ''/home/user/.bazelisk/bin/bazel-7.0.0-linux-x86_64''))"
    by (simp add: example_download)
  from artifact_naming [OF supported_examples(1), of "''7.0.0''" bin_dir
      "''/home/user/.bazelisk/bin/bazel-7.0.0-linux-x86_64''"] l f u j a
  have 1: "determine_bazel_filename ready_host ''7.0.0'' = Inr ''bazel-7.0.0-linux-x86_64''
   \<and> net_log (snd (download_bazel_into_directory ready_host ''7.0.0'' bin_dir))
      = [''https://releases.bazel.build/7.0.0/release/bazel-7.0.0-linux-x86_64'']"
    by simp
  from artifact_naming [OF supported_examples(3), of "''6.4.0''" bin_dir
      "''/home/user/.bazelisk/bin/bazel-6.4.0-darwin-x86_64''"] l f u j a
  have 2: "determine_bazel_filename mac_host ''6.4.0'' = Inr ''bazel-6.4.0-darwin-x86_64''
   \<and> net_log (snd (download_bazel_into_directory mac_host ''6.4.0'' bin_dir))
      = [''https://releases.bazel.build/6.4.0/release/bazel-6.4.0-darwin-x86_64'']"
    by simp
  have 3: "fst (download_bazel_into_directory ready_host ''7.0.0'' bin_dir)
      = Inr ''/home/user/.bazelisk/bin/bazel-7.0.0-linux-x86_64''"
    by (simp add: example_download)
  note 4 = mac_download
  from 1 2 3 4 show ?thesis
    by (intro conjI) (elim conjE, assumption)+
qed

text \<open>
  C4. When the destination exists the download makes no request and returns the destination
  path. When a call returns a path, calling again on the resulting host returns the same
  path and leaves that host as it is, so it makes no request; the first call made one
  request if the destination was absent and none if it was there.
\<close>

theorem download_idempotent:
  "(supported w
      \<and> path_exists (fs w) (join d (artifact_filename v (lower (system w)) ''x86_64'')) \<longrightarrow>
      fst (download_bazel_into_directory w v d)
        = Inr (join d (artifact_filename v (lower (system w)) ''x86_64''))
      \<and> net_log (snd (download_bazel_into_directory w v d)) = net_log w)
   \<and> (download_bazel_into_directory w v d = (Inr p, w1) \<longrightarrow>
      download_bazel_into_directory w1 v d = (Inr p, w1)
      \<and> (\<not> path_exists (fs w) p \<longrightarrow> length (net_log w1) = Suc (length (net_log w)))
      \<and> (path_exists (fs w) p \<longrightarrow> net_log w1 = net_log w))"
proof (rule conjI)
  show "supported w
      \<and> path_exists (fs w) (join d (artifact_filename v (lower (system w)) ''x86_64'')) \<longrightarrow>
      fst (download_bazel_into_directory w v d)
        = Inr (join d (artifact_filename v (lower (system w)) ''x86_64''))
      \<and> net_log (snd (download_bazel_into_directory w v d)) = net_log w"
  proof (rule impI, elim conjE)
    assume "supported w"
      and "path_exists (fs w) (join d (artifact_filename v (lower (system w)) ''x86_64''))"
    then show "fst (download_bazel_into_directory w v d)
        = Inr (join d (artifact_filename v (lower (system w)) ''x86_64''))
      \<and> net_log (snd (download_bazel_into_directory w v d)) = net_log w"
      by (rule download_hit_result)
  qed
next
  show "download_bazel_into_directory w v d = (Inr p, w1) \<longrightarrow>
      download_bazel_into_directory w1 v d = (Inr p, w1)
      \<and> (\<not> path_exists (fs w) p \<longrightarrow> length (net_log w1) = Suc (length (net_log w)))
      \<and> (path_exists (fs w) p \<longrightarrow> net_log w1 = net_log w)"
    by (rule impI, rule download_again)
qed

theorem download_idempotent_witness:
  "fst (download_bazel_into_directory cached_binary_host ''7.0.0'' bin_dir)
     = Inr ''/home/user/.bazelisk/bin/bazel-7.0.0-linux-x86_64''
   \<and> net_log (snd (download_bazel_into_directory cached_binary_host ''7.0.0'' bin_dir)) = []
   \<and> download_bazel_into_directory
        (snd (download_bazel_into_directory ready_host ''7.0.0'' bin_dir)) ''7.0.0'' bin_dir
      = (Inr ''/home/user/.bazelisk/bin/bazel-7.0.0-linux-x86_64'',
         snd (download_bazel_into_directory ready_host ''7.0.0'' bin_dir))
   \<and> length (net_log (snd (download_bazel_into_directory ready_host ''7.0.0'' bin_dir))) = 1"
proof -
  let ?p = "''/home/user/.bazelisk/bin/bazel-7.0.0-linux-x86_64''"
  have j: "join bin_dir (artifact_filename ''7.0.0'' ''linux'' ''x86_64'') = ?p"
    by (simp add: join_def artifact_filename_def)
  have l: "lower (system cached_binary_host) = ''linux''"
    by (simp add: cached_binary_host_def host_defs lower_Linux)
  have c: "path_exists (fs cached_binary_host) ?p" "net_log cached_binary_host = []"
    by (simp_all add: cached_binary_host_def host_defs path_exists_def)
  have e: "\<not> path_exists (fs ready_host) ?p" "net_log ready_host = []"
    by (simp_all add: host_defs path_exists_def)
  have first: "download_bazel_into_directory ready_host ''7.0.0'' bin_dir
     = (Inr ?p, snd (download_bazel_into_directory ready_host ''7.0.0'' bin_dir))"
    by (simp add: example_download)
  from download_idempotent [of cached_binary_host bin_dir "''7.0.0''" "[]" ready_host]
    supported_examples(2) c j l
  have 1: "fst (download_bazel_into_directory cached_binary_host ''7.0.0'' bin_dir) = Inr ?p
     \<and> net_log (snd (download_bazel_into_directory cached_binary_host ''7.0.0'' bin_dir)) = []"
    by simp
  from download_idempotent [of ready_host bin_dir "''7.0.0''" ?p
      "snd (download_bazel_into_directory ready_host ''7.0.0'' bin_dir)"] first e
  have 2: "download_bazel_into_directory
        (snd (download_bazel_into_directory ready_host ''7.0.0'' bin_dir)) ''7.0.0'' bin_dir
      = (Inr ?p, snd (download_bazel_into_directory ready_host ''7.0.0'' bin_dir))
   \<and> length (net_log (snd (download_bazel_into_directory ready_host ''7.0.0'' bin_dir))) = 1"
    by simp
  from 1 2 show ?thesis
    by (intro conjI) (elim conjE, assumption)+
qed




text \<open>
  C10. Whenever the download returns a path, the node at that path has the mode
  \<open>0o755\<close> (493) in the resulting file system; this covers the branch in which the file
  was already there and nothing was fetched or written. In the witness the file was there
  with mode \<open>0o644\<close> (420).
\<close>

theorem download_sets_mode:
  assumes "download_bazel_into_directory w v d = (Inr p, w1)"
  shows "map_option mode (fs w1 p) = Some 493"
  using assms by (rule download_Inr(3))

theorem download_sets_mode_witness:
  "map_option mode (fs cached_binary_host ''/home/user/.bazelisk/bin/bazel-7.0.0-linux-x86_64'')
     = Some 420
   \<and> fst (download_bazel_into_directory cached_binary_host ''7.0.0'' bin_dir)
     = Inr ''/home/user/.bazelisk/bin/bazel-7.0.0-linux-x86_64''
   \<and> net_log (snd (download_bazel_into_directory cached_binary_host ''7.0.0'' bin_dir)) = []
   \<and> map_option mode (fs (snd (download_bazel_into_directory cached_binary_host ''7.0.0'' bin_dir))
        ''/home/user/.bazelisk/bin/bazel-7.0.0-linux-x86_64'') = Some 493"
proof -
  let ?p = "''/home/user/.bazelisk/bin/bazel-7.0.0-linux-x86_64''"
  have a: "download_bazel_into_directory cached_binary_host ''7.0.0'' bin_dir
     = (Inr ?p, snd (download_bazel_into_directory cached_binary_host ''7.0.0'' bin_dir))"
    by (simp add: cached_download)
  have b: "map_option mode (fs cached_binary_host ?p) = Some 420"
    "fst (download_bazel_into_directory cached_binary_host ''7.0.0'' bin_dir) = Inr ?p"
    "net_log (snd (download_bazel_into_directory cached_binary_host ''7.0.0'' bin_dir)) = []"
    by (simp_all add: cached_download)
       (simp_all add: cached_binary_host_def host_defs file_node_def)
  from download_sets_mode [OF a] b show ?thesis
    by (intro conjI)
qed

section \<open>The platform check\<close>

text \<open>
  C3, as the program has it. On a host that is not supported (the machine is not
  \<open>x86_64\<close>, or the operating system is none of linux, darwin and windows),
  \<open>determine_bazel_filename\<close> raises the exception for the unsupported platform, and
  \<open>download_bazel_into_directory\<close> raises it with the host exactly as it was: no request
  and no change to the file system. \<open>main\<close> never returns the exit code of a launched
  binary on such a host. Nothing is said of what \<open>main\<close> does before the download.
\<close>

theorem unsupported_platform_rejected:
  assumes "\<not> supported w"
  shows "(\<exists>msg. determine_bazel_filename w v = Inl (Exception msg)
            \<and> download_bazel_into_directory w v d = (Inl (Exception msg), w))
     \<and> fst (main w argv) \<noteq> Inr c"
proof -
  from assms obtain msg where "determine_bazel_filename w v = Inl (Exception msg)"
    using determine_unsupported by blast
  then have "determine_bazel_filename w v = Inl (Exception msg)
      \<and> download_bazel_into_directory w v d = (Inl (Exception msg), w)"
    by (simp add: download_rejected)
  then have "\<exists>msg. determine_bazel_filename w v = Inl (Exception msg)
      \<and> download_bazel_into_directory w v d = (Inl (Exception msg), w)"
    by (rule exI)
  moreover from assms have "fst (main w argv) \<noteq> Inr c"
    using main_Inr_supported by blast
  ultimately show ?thesis
    by (rule conjI)
qed

theorem unsupported_platform_rejected_witness:
  "machine arm_host = ''arm64''
   \<and> determine_bazel_filename arm_host ''7.0.0'' = Inl (Exception arm64_message)
   \<and> download_bazel_into_directory arm_host ''7.0.0'' bin_dir
       = (Inl (Exception arm64_message), arm_host)
   \<and> fst (main arm_host [''bazelisk'', ''build'']) \<noteq> Inr 0"
proof -
  have m: "machine arm_host = ''arm64''"
    by (simp add: arm_host_def)
  from unsupported_platform_rejected [OF supported_examples(5),
      of "''7.0.0''" bin_dir "[''bazelisk'', ''build'']" 0]
  obtain msg where a: "determine_bazel_filename arm_host ''7.0.0'' = Inl (Exception msg)"
    and b: "download_bazel_into_directory arm_host ''7.0.0'' bin_dir = (Inl (Exception msg), arm_host)"
    and c: "fst (main arm_host [''bazelisk'', ''build'']) \<noteq> Inr 0"
    by (elim conjE exE)
  from a arm_determine [of "''7.0.0''"] have "msg = arm64_message"
    by simp
  with m a b c show ?thesis
    by simp
qed

text \<open>
  C3 as stated fails for the program as a whole: \<open>main\<close> on an \<open>arm64\<close> host with an
  empty file system raises the exception only after it has made \<open>.bazelisk\<close>, asked the
  network for the latest release, written \<open>latest_bazel\<close> and made \<open>bin\<close>.
\<close>

theorem platform_check_after_side_effects_counterexample:
  "machine arm_host = ''arm64''
   \<and> fs arm_host = Map.empty
   \<and> net_log arm_host = []
   \<and> fst (main arm_host [''bazelisk'', ''build'']) = Inl (Exception arm64_message)
   \<and> net_log (snd (main arm_host [''bazelisk'', ''build''])) = [latest_url]
   \<and> map_option content (fs (snd (main arm_host [''bazelisk'', ''build''])) ''/home/user/.bazelisk'')
       = Some Directory
   \<and> map_option content (fs (snd (main arm_host [''bazelisk'', ''build''])) ''/home/user/.bazelisk/bin'')
       = Some Directory
   \<and> map_option content
        (fs (snd (main arm_host [''bazelisk'', ''build''])) ''/home/user/.bazelisk/latest_bazel'')
       = Some (Regular ''9.1.0'')
   \<and> fs (snd (main arm_host [''bazelisk'', ''build''])) \<noteq> fs arm_host"
proof -
  have a: "machine arm_host = ''arm64''" "fs arm_host = Map.empty" "net_log arm_host = []"
    by (simp_all add: arm_host_def host_defs)
  have b: "fst (main arm_host [''bazelisk'', ''build'']) = Inl (Exception arm64_message)"
    "net_log (snd (main arm_host [''bazelisk'', ''build''])) = [latest_url]"
    "map_option content (fs (snd (main arm_host [''bazelisk'', ''build''])) ''/home/user/.bazelisk'')
       = Some Directory"
    "map_option content (fs (snd (main arm_host [''bazelisk'', ''build''])) ''/home/user/.bazelisk/bin'')
       = Some Directory"
    "map_option content
        (fs (snd (main arm_host [''bazelisk'', ''build''])) ''/home/user/.bazelisk/latest_bazel'')
       = Some (Regular ''9.1.0'')"
    by (simp_all add: arm_main dir_node_def file_node_def)
  have "fs (snd (main arm_host [''bazelisk'', ''build''])) ''/home/user/.bazelisk''
      \<noteq> fs arm_host ''/home/user/.bazelisk''"
    by (simp add: arm_main a)
  then have c: "fs (snd (main arm_host [''bazelisk'', ''build''])) \<noteq> fs arm_host"
    by metis
  from a b c show ?thesis
    by (intro conjI)
qed

end
